theory Spec2Isabelle
  imports Complex_Main "HOL-Library.Word" "HOL-Library.Log_Nat"
begin

section \<open>JavaScript strings\<close>

text \<open>
  A JavaScript string is a sequence of UTF-16 code units. String literals of the source
  are written \<open>js ''...''\<close>.
\<close>

type_synonym jschar = "16 word"
type_synonym jsstring = "jschar list"

definition chr :: "char \<Rightarrow> jschar" where
  "chr c = of_char c"

definition js :: "string \<Rightarrow> jsstring" where
  "js s = map chr s"

text \<open>
  The code units that \<open>\s\<close>, \<open>String.prototype.trim\<close> and the whitespace skipping of
  \<open>parseInt\<close> treat as blank: ECMAScript's WhiteSpace and LineTerminator productions.
\<close>

definition isWhiteSpace :: "jschar \<Rightarrow> bool" where
  "isWhiteSpace c =
     ((0x09 \<le> c \<and> c \<le> 0x0D) \<or> c = 0x20 \<or> c = 0xA0 \<or> c = 0x1680 \<or>
      (0x2000 \<le> c \<and> c \<le> 0x200A) \<or> c = 0x2028 \<or> c = 0x2029 \<or> c = 0x202F \<or>
      c = 0x205F \<or> c = 0x3000 \<or> c = 0xFEFF)"

definition isDigit :: "jschar \<Rightarrow> bool" where
  "isDigit c = (0x30 \<le> c \<and> c \<le> 0x39)"

text \<open>\<open>s.trim()\<close>\<close>

definition trim :: "jsstring \<Rightarrow> jsstring" where
  "trim s = rev (dropWhile isWhiteSpace (rev (dropWhile isWhiteSpace s)))"

text \<open>\<open>s.replace(/\s/g, '')\<close>: every blank code unit is deleted.\<close>

definition stripWhiteSpace :: "jsstring \<Rightarrow> jsstring" where
  "stripWhiteSpace s = filter (\<lambda>c. \<not> isWhiteSpace c) s"


section \<open>Regular expressions\<close>

text \<open>
  The fragment of the regular expression syntax the source uses: the anchors \<open>^\<close> and
  \<open>$\<close> (no flags, so they match at the two ends of the input only), character classes,
  greedy quantifiers \<open>?\<close> and \<open>{lo,hi}\<close> on a character class, sequence and alternation.
  Inside a class, \<open>\d\<close> is \<open>[0-9]\<close> and \<open>\s\<close> is the blank set.
\<close>

datatype atom = Lit jschar | Range jschar jschar | Digit | Space

datatype regex =
    Bol
  | Eol
  | Cls "atom list"
  | Quant "atom list" nat "nat option"
  | Seq regex regex
  | Alt regex regex

fun in_atom :: "atom \<Rightarrow> jschar \<Rightarrow> bool" where
  "in_atom (Lit a) c = (c = a)"
| "in_atom (Range a b) c = (a \<le> c \<and> c \<le> b)"
| "in_atom Digit c = isDigit c"
| "in_atom Space c = isWhiteSpace c"

definition in_class :: "atom list \<Rightarrow> jschar \<Rightarrow> bool" where
  "in_class cls c = list_ex (\<lambda>a. in_atom a c) cls"

text \<open>
  A matcher state is the index reached and the rest of the input. A backtracking matcher
  is modelled by the list of all states a pattern can reach, in the order the engine
  tries them (a greedy quantifier takes the longest repetition first).
\<close>

type_synonym mstate = "nat \<times> jsstring"

fun quant :: "atom list \<Rightarrow> nat \<Rightarrow> nat option \<Rightarrow> mstate \<Rightarrow> mstate list" where
  "quant cls lo hi (i, []) = (if lo = 0 then [(i, [])] else [])"
| "quant cls lo hi (i, c # cs) =
     (if hi \<noteq> Some 0 \<and> in_class cls c
      then quant cls (lo - 1) (map_option (\<lambda>h. h - 1) hi) (Suc i, cs) else [])
     @ (if lo = 0 then [(i, c # cs)] else [])"

fun steps :: "regex \<Rightarrow> mstate \<Rightarrow> mstate list" where
  "steps Bol (i, s) = (if i = 0 then [(i, s)] else [])"
| "steps Eol (i, s) = (if s = [] then [(i, s)] else [])"
| "steps (Cls cls) (i, s) =
     (case s of [] \<Rightarrow> [] | c # cs \<Rightarrow> if in_class cls c then [(Suc i, cs)] else [])"
| "steps (Quant cls lo hi) x = quant cls lo hi x"
| "steps (Seq a b) x = concat (map (steps b) (steps a x))"
| "steps (Alt a b) x = steps a x @ steps b x"

text \<open>
  \<open>regex.test(s)\<close> for a regular expression without flags: a match may start at any
  index of the input.
\<close>

definition regex_test :: "regex \<Rightarrow> jsstring \<Rightarrow> bool" where
  "regex_test r s = list_ex (\<lambda>i. steps r (i, drop i s) \<noteq> []) [0..<Suc (length s)]"


section \<open>The validator\<close>

text \<open>
  \<^verbatim>\<open>/^[\+]?[1-9][\d]{0,15}$|^[\(]?[\d\s\-\(\)]{10,}$/\<close>
\<close>

definition phoneRegex :: regex where
  "phoneRegex =
     Alt (Seq Bol (Seq (Quant [Lit (chr CHR ''+'')] 0 (Some 1))
            (Seq (Cls [Range (chr CHR ''1'') (chr CHR ''9'')])
              (Seq (Quant [Digit] 0 (Some 15)) Eol))))
         (Seq Bol (Seq (Quant [Lit (chr CHR ''('')] 0 (Some 1))
            (Seq (Quant [Digit, Space, Lit (chr CHR ''-''), Lit (chr CHR ''(''),
                         Lit (chr CHR '')'')] 10 None) Eol)))"

definition isValidPhoneNumber :: "jsstring \<Rightarrow> bool" where
  "isValidPhoneNumber phone = regex_test phoneRegex (stripWhiteSpace phone)"

text \<open>
  The form as the handlers read it: the values of the two inputs, the value of the checked
  radio button (\<open>None\<close> when \<open>querySelector\<close> finds none checked), the value of the
  quantity select and of the instructions textarea.
\<close>

record form =
  customerNameValue :: jsstring
  phoneNumberValue :: jsstring
  checkedHamburgerType :: "jsstring option"
  quantityValue :: jsstring
  specialInstructionsValue :: jsstring

datatype field = CustomerNameInput | PhoneNumberInput

text \<open>What \<open>validateForm\<close> shows: \<open>showFieldError\<close> on a field, or \<open>showError\<close>.\<close>

datatype shown = FieldError field jsstring | Notification jsstring

definition validateForm :: "form \<Rightarrow> bool \<times> shown list" where
  "validateForm f =
     (let (isValid, es) = (True, []);
          (isValid, es) =
            (if trim (customerNameValue f) = []
             then (False, es @ [FieldError CustomerNameInput (js ''Customer name is required'')])
             else (isValid, es));
          (isValid, es) =
            (if trim (phoneNumberValue f) = []
             then (False, es @ [FieldError PhoneNumberInput (js ''Phone number is required'')])
             else if \<not> isValidPhoneNumber (phoneNumberValue f)
             then (False,
                   es @ [FieldError PhoneNumberInput (js ''Please enter a valid phone number'')])
             else (isValid, es));
          (isValid, es) =
            (if checkedHamburgerType f = None
             then (False, es @ [Notification (js ''Please select a burger type'')])
             else (isValid, es))
      in (isValid, es))"

text \<open>The fields \<open>validateForm\<close> marks invalid.\<close>

definition marked :: "field \<Rightarrow> shown list \<Rightarrow> bool" where
  "marked fld es = list_ex (\<lambda>e. case e of FieldError g m \<Rightarrow> g = fld | Notification m \<Rightarrow> False) es"


text \<open>
  The two shapes of the specification's phone rule, in its words: (a) an optional leading
  \<open>+\<close>, a first digit 1-9, then up to 15 further digits and nothing else; (b) at least
  10 characters, each a digit or one of \<open>( ) -\<close>.
\<close>

definition intlFormat :: "jsstring \<Rightarrow> bool" where
  "intlFormat t =
     (case (case t of [] \<Rightarrow> [] | c # cs \<Rightarrow> if c = chr CHR ''+'' then cs else t) of
        [] \<Rightarrow> False
      | d # ds \<Rightarrow> chr CHR ''1'' \<le> d \<and> d \<le> chr CHR ''9'' \<and> length ds \<le> 15 \<and> list_all isDigit ds)"

definition localFormat :: "jsstring \<Rightarrow> bool" where
  "localFormat t =
     (10 \<le> length t \<and>
      list_all (\<lambda>c. isDigit c \<or> c = chr CHR ''('' \<or> c = chr CHR '')'' \<or> c = chr CHR ''-'') t)"


section \<open>JavaScript numbers\<close>

text \<open>
  A Number is an IEEE 754 binary64 value: \<open>NaN\<close>, or a finite value \<open>Fin q\<close> with \<open>q\<close>
  the rational it denotes. Every arithmetic result is rounded by \<open>fl\<close> to the nearest
  value with a 53-bit significand, ties to the even significand. The exponent range is
  left unbounded, so overflow to \<open>Infinity\<close> (from \<open>2^1024\<close> on) and gradual underflow
  (below \<open>2^-1022\<close>) are outside the model, and \<open>-0\<close> is not told from \<open>0\<close>.
\<close>

datatype jsnum = NaN | Fin rat

text \<open>\<open>ilog b q\<close> is the integer \<open>e\<close> with \<open>b^e \<le> q < b^(e+1)\<close>, for \<open>q > 0\<close>.\<close>

definition ilog :: "nat \<Rightarrow> rat \<Rightarrow> int" where
  "ilog b q =
     (if 1 \<le> q then int (floorlog b (nat \<lfloor>q\<rfloor>)) - 1
      else - int (floorlog b (nat (\<lceil>1 / q\<rceil> - 1))))"

definition round_even :: "rat \<Rightarrow> int" where
  "round_even x =
     (let f = \<lfloor>x\<rfloor>; d = x - of_int f
      in if d < 1 / 2 then f else if 1 / 2 < d then f + 1 else if even f then f else f + 1)"

definition fl :: "rat \<Rightarrow> rat" where
  "fl q =
     (if q = 0 then 0
      else let u = 2 powi (ilog 2 \<bar>q\<bar> - 52) in of_int (round_even (q / u)) * u)"

text \<open>The Number a decimal literal of the source denotes, as \<open>12.99\<close>.\<close>

definition literal :: "rat \<Rightarrow> jsnum" where
  "literal q = Fin (fl q)"

text \<open>\<open>a * b\<close> and \<open>a++\<close> on Numbers.\<close>

fun js_mul :: "jsnum \<Rightarrow> jsnum \<Rightarrow> jsnum" where
  "js_mul (Fin a) (Fin b) = Fin (fl (a * b))"
| "js_mul _ _ = NaN"

fun js_inc :: "jsnum \<Rightarrow> jsnum" where
  "js_inc (Fin a) = Fin (fl (a + 1))"
| "js_inc NaN = NaN"

text \<open>ToBoolean on a Number: \<open>NaN\<close> and zero are falsy.\<close>

fun truthy_num :: "jsnum \<Rightarrow> bool" where
  "truthy_num NaN = False"
| "truthy_num (Fin q) = (q \<noteq> 0)"

subsection \<open>Number to string\<close>

definition digitChar :: "nat \<Rightarrow> jschar" where
  "digitChar d = of_nat (48 + d)"

fun decimal :: "nat \<Rightarrow> jsstring" where
  "decimal n = (if n < 10 then [digitChar n] else decimal (n div 10) @ [digitChar (n mod 10)])"

declare decimal.simps [simp del]

text \<open>
  \<open>Number::toString\<close> takes integers \<open>k\<close>, \<open>s\<close>, \<open>n\<close> with \<open>s\<close> of \<open>k\<close> digits, \<open>k\<close>
  least, such that \<open>s * 10^(n - k)\<close> rounds to the number. For a given \<open>k\<close> the only
  candidates are the two \<open>k\<close>-digit decimals around the number; \<open>hits\<close> keeps those
  that round to it, the closer one first (the even \<open>s\<close> first when equally close).
  Seventeen digits always suffice for a binary64 value, so the search stops there.
\<close>

definition candidates :: "rat \<Rightarrow> nat \<Rightarrow> (int \<times> int) list" where
  "candidates x k =
     (let n = ilog 10 x + 1;
          s = \<lfloor>x / 10 powi (n - int k)\<rfloor>;
          lower = (s, n);
          upper = (if s + 1 = 10 ^ k then (10 ^ (k - 1), n + 1) else (s + 1, n));
          dl = x - of_int s * 10 powi (n - int k);
          du = of_int (s + 1) * 10 powi (n - int k) - x
      in if dl < du \<or> (dl = du \<and> even s) then [lower, upper] else [upper, lower])"

definition hits :: "rat \<Rightarrow> nat \<Rightarrow> (int \<times> int) list" where
  "hits x k =
     filter (\<lambda>(s, n). 10 ^ (k - 1) \<le> s \<and> s < 10 ^ k \<and>
                       fl (of_int s * 10 powi (n - int k)) = x)
       (candidates x k)"

fun shortest :: "nat \<Rightarrow> nat \<Rightarrow> rat \<Rightarrow> (nat \<times> int \<times> int) option" where
  "shortest 0 k x = None"
| "shortest (Suc fuel) k x =
     (case hits x k of (s, n) # _ \<Rightarrow> Some (k, s, n) | [] \<Rightarrow> shortest fuel (Suc k) x)"

definition zeros :: "nat \<Rightarrow> jsstring" where
  "zeros m = replicate m (chr CHR ''0'')"

definition formatDigits :: "nat \<Rightarrow> int \<Rightarrow> int \<Rightarrow> jsstring" where
  "formatDigits k s n =
     (let ds = decimal (nat s) in
      if int k \<le> n \<and> n \<le> 21 then ds @ zeros (nat (n - int k))
      else if 0 < n \<and> n \<le> 21 then take (nat n) ds @ js ''.'' @ drop (nat n) ds
      else if - 6 < n \<and> n \<le> 0 then js ''0.'' @ zeros (nat (- n)) @ ds
      else let e = n - 1;
               ex = (if e < 0 then js ''-'' else js ''+'') @ decimal (nat \<bar>e\<bar>)
           in if k = 1 then ds @ js ''e'' @ ex
              else take 1 ds @ js ''.'' @ drop 1 ds @ js ''e'' @ ex)"

text \<open>
  An integer up to \<open>2^53\<close> in magnitude is its own shortest decimal, so it prints as its
  digits. Where the search finds nothing (no binary64 value), seventeen digits are printed.
\<close>

definition positiveToString :: "rat \<Rightarrow> jsstring" where
  "positiveToString x =
     (if x = of_int \<lfloor>x\<rfloor> \<and> x \<le> 2 ^ 53 then decimal (nat \<lfloor>x\<rfloor>)
      else case shortest 17 1 x of
             Some (k, s, n) \<Rightarrow> formatDigits k s n
           | None \<Rightarrow> (case candidates x 17 of (s, n) # _ \<Rightarrow> formatDigits 17 s n
                                             | [] \<Rightarrow> []))"

fun numberToString :: "jsnum \<Rightarrow> jsstring" where
  "numberToString NaN = js ''NaN''"
| "numberToString (Fin q) =
     (if q = 0 then js ''0''
      else if q < 0 then js ''-'' @ positiveToString (- q)
      else positiveToString q)"

subsection \<open>parseInt\<close>

text \<open>
  \<open>parseInt(string)\<close> without a radix: leading blanks are skipped, a sign is read, a
  \<open>0x\<close> or \<open>0X\<close> prefix selects radix 16, and the longest run of digits of the radix is
  the value; with no digit the result is \<open>NaN\<close>.
\<close>

definition digitValue :: "nat \<Rightarrow> jschar \<Rightarrow> nat option" where
  "digitValue radix c =
     (let v = (if 0x30 \<le> c \<and> c \<le> 0x39 then Some (unat c - 0x30)
               else if 0x61 \<le> c \<and> c \<le> 0x7A then Some (unat c - 0x61 + 10)
               else if 0x41 \<le> c \<and> c \<le> 0x5A then Some (unat c - 0x41 + 10)
               else None)
      in case v of Some d \<Rightarrow> if d < radix then Some d else None | None \<Rightarrow> None)"

definition digitsValue :: "nat \<Rightarrow> jsstring \<Rightarrow> nat" where
  "digitsValue radix z = foldl (\<lambda>a c. a * radix + the (digitValue radix c)) 0 z"

definition parseInt :: "jsstring \<Rightarrow> jsnum" where
  "parseInt inputString =
     (let s = dropWhile isWhiteSpace inputString;
          negative = (case s of c # _ \<Rightarrow> c = chr CHR ''-'' | [] \<Rightarrow> False);
          s = (case s of c # cs \<Rightarrow> if c = chr CHR ''+'' \<or> c = chr CHR ''-'' then cs else s
                       | [] \<Rightarrow> s);
          hex = (take 2 s = js ''0x'' \<or> take 2 s = js ''0X'');
          radix = (if hex then 16 else 10);
          s = (if hex then drop 2 s else s);
          z = takeWhile (\<lambda>c. digitValue radix c \<noteq> None) s
      in if z = [] then NaN
         else Fin (fl ((if negative then - 1 else 1) * of_nat (digitsValue radix z))))"


section \<open>Persisted storage\<close>

text \<open>
  \<open>localStorage\<close>: string keys to string values. A read throws where access to the
  storage is denied, a write throws where it is denied or the quota is exceeded; the
  two flags say whether the storage currently serves reads and writes.
\<close>

datatype exn = SecurityError | QuotaExceededError | TypeError | SyntaxError

record storage =
  items :: "jsstring \<rightharpoonup> jsstring"
  readable :: bool
  writable :: bool

definition getItem :: "storage \<Rightarrow> jsstring \<Rightarrow> exn + jsstring option" where
  "getItem st k = (if readable st then Inr (items st k) else Inl SecurityError)"

definition setItem :: "storage \<Rightarrow> jsstring \<Rightarrow> jsstring \<Rightarrow> exn + storage" where
  "setItem st k v =
     (if writable st then Inr (st\<lparr>items := (items st)(k \<mapsto> v)\<rparr>) else Inl QuotaExceededError)"

definition ordersKey :: jsstring where
  "ordersKey = js ''burgercraft_orders''"

definition counterKey :: jsstring where
  "counterKey = js ''burgercraft_order_counter''"

text \<open>
  \<open>loadOrderCounterFromStorage\<close>: the \<open>catch\<close> branch and the falsy branch (no item, or
  the empty string) give 1000; any other stored string goes through \<open>parseInt\<close>.
\<close>

definition loadOrderCounterFromStorage :: "storage \<Rightarrow> jsnum" where
  "loadOrderCounterFromStorage st =
     (case getItem st counterKey of
        Inl e \<Rightarrow> Fin 1000
      | Inr stored \<Rightarrow>
          (case stored of
             None \<Rightarrow> Fin 1000
           | Some s \<Rightarrow> if s \<noteq> [] then parseInt s else Fin 1000))"


section \<open>The pricing table\<close>

text \<open>
  \<open>prices[burgerType] || 12.99\<close>. \<open>prices\<close> is an object literal, so a property
  lookup that finds no own property goes on to \<open>Object.prototype\<close>: for the names
  below it yields the inherited member (a function, or the prototype object itself for
  \<open>__proto__\<close>), which is truthy and is what \<open>getBurgerPrice\<close> then returns.
\<close>

datatype jsval = Number jsnum | Inherited jsstring

definition prices :: "(jsstring \<times> jsnum) list" where
  "prices =
     [(js ''Classic Beef Burger'', literal (1299 / 100)),
      (js ''Grilled Chicken Burger'', literal (1199 / 100)),
      (js ''Plant-Based Veggie Burger'', literal (1099 / 100)),
      (js ''Deluxe BBQ Burger'', literal (1599 / 100))]"

definition objectPrototypeKeys :: "jsstring list" where
  "objectPrototypeKeys =
     [js ''constructor'', js ''hasOwnProperty'', js ''isPrototypeOf'',
      js ''propertyIsEnumerable'', js ''toLocaleString'', js ''toString'', js ''valueOf'',
      js ''__proto__'', js ''__defineGetter__'', js ''__defineSetter__'',
      js ''__lookupGetter__'', js ''__lookupSetter__'']"

definition getBurgerPrice :: "jsstring \<Rightarrow> jsval" where
  "getBurgerPrice burgerType =
     (case map_of prices burgerType of
        Some p \<Rightarrow> if truthy_num p then Number p else Number (literal (1299 / 100))
      | None \<Rightarrow>
          if burgerType \<in> set objectPrototypeKeys then Inherited burgerType
          else Number (literal (1299 / 100)))"

text \<open>ToNumber, as the multiplication applies it: an object or function gives \<open>NaN\<close>.\<close>

fun toNumber :: "jsval \<Rightarrow> jsnum" where
  "toNumber (Number x) = x"
| "toNumber (Inherited name) = NaN"


section \<open>The order builder\<close>

record order =
  customerName :: jsstring
  phoneNumber :: jsstring
  hamburgerType :: jsstring
  quantity :: jsnum
  specialInstructions :: jsstring
  unitPrice :: jsval
  totalPrice :: jsnum
  status :: jsstring
  orderDate :: jsstring
  orderId :: jsstring

text \<open>
  The fields of \<open>BurgerCraftApp\<close> and the storage it works on. The document is not
  modelled: what the handlers do to the page (modal classes, error marks, the table) is
  left out.
\<close>

record app =
  orders :: "order list"
  orderCounter :: jsnum
  currentOrder :: "order option"
  localStorage :: storage

definition saveOrderCounterToStorage :: "app \<Rightarrow> app" where
  "saveOrderCounterToStorage a =
     (case setItem (localStorage a) counterKey (numberToString (orderCounter a)) of
        Inr st \<Rightarrow> a\<lparr>localStorage := st\<rparr>
      | Inl e \<Rightarrow> a)"

definition padStart :: "nat \<Rightarrow> jschar \<Rightarrow> jsstring \<Rightarrow> jsstring" where
  "padStart n c s = replicate (n - length s) c @ s"

definition generateOrderId :: "app \<Rightarrow> jsstring \<times> app" where
  "generateOrderId a =
     (let a = a\<lparr>orderCounter := js_inc (orderCounter a)\<rparr>;
          a = saveOrderCounterToStorage a
      in (js ''BC'' @ padStart 4 (chr CHR ''0'') (numberToString (orderCounter a)), a))"

text \<open>
  \<open>collectFormData\<close>; \<open>now\<close> is what \<open>new Date().toISOString()\<close> returns. With no
  radio button checked, \<open>selectedBurger.value\<close> throws before anything is changed.
\<close>

definition collectFormData :: "app \<Rightarrow> form \<Rightarrow> jsstring \<Rightarrow> exn + order \<times> app" where
  "collectFormData a f now =
     (case checkedHamburgerType f of
        None \<Rightarrow> Inl TypeError
      | Some selectedBurger \<Rightarrow>
          let quantity = parseInt (quantityValue f);
              burgerPrice = getBurgerPrice selectedBurger;
              totalPrice = js_mul (toNumber burgerPrice) quantity;
              (newId, a') = generateOrderId a
          in Inr (\<lparr>customerName = trim (customerNameValue f),
                    phoneNumber = trim (phoneNumberValue f),
                    hamburgerType = selectedBurger,
                    quantity = quantity,
                    specialInstructions =
                      (if trim (specialInstructionsValue f) \<noteq> []
                       then trim (specialInstructionsValue f) else js ''None''),
                    unitPrice = burgerPrice,
                    totalPrice = totalPrice,
                    status = js ''Pending'',
                    orderDate = now,
                    orderId = newId\<rparr>, a'))"

section \<open>JSON\<close>

datatype json =
    JNull
  | JBool bool
  | JNumber jsnum
  | JString jsstring
  | JArray "json list"
  | JObject "(jsstring \<times> json) list"

subsection \<open>JSON.stringify\<close>

text \<open>
  QuoteJSONString: the quote, the backslash and the control characters are escaped, a
  surrogate that is not half of a pair is written as a \<open>u\<close> escape of four hex digits, every other code unit
  stands for itself.
\<close>

definition hexDigit :: "nat \<Rightarrow> jschar" where
  "hexDigit d = (if d < 10 then of_nat (48 + d) else of_nat (87 + d))"

definition hex4 :: "jschar \<Rightarrow> jsstring" where
  "hex4 c =
     (let n = unat c
      in [hexDigit (n div 4096), hexDigit (n div 256 mod 16), hexDigit (n div 16 mod 16),
          hexDigit (n mod 16)])"

definition unicodeEscape :: "jschar \<Rightarrow> jsstring" where
  "unicodeEscape c = [0x5C, 0x75] @ hex4 c"

definition isHighSurrogate :: "jschar \<Rightarrow> bool" where
  "isHighSurrogate c = (0xD800 \<le> c \<and> c \<le> 0xDBFF)"

definition isLowSurrogate :: "jschar \<Rightarrow> bool" where
  "isLowSurrogate c = (0xDC00 \<le> c \<and> c \<le> 0xDFFF)"

definition quoteChar :: "jschar \<Rightarrow> jsstring" where
  "quoteChar c =
     (if c = 0x08 then [0x5C, 0x62]
      else if c = 0x09 then [0x5C, 0x74]
      else if c = 0x0A then [0x5C, 0x6E]
      else if c = 0x0C then [0x5C, 0x66]
      else if c = 0x0D then [0x5C, 0x72]
      else if c = 0x22 then [0x5C, 0x22]
      else if c = 0x5C then [0x5C, 0x5C]
      else if c < 0x20 then unicodeEscape c
      else [c])"

fun quoteBody :: "jsstring \<Rightarrow> jsstring" where
  "quoteBody [] = []"
| "quoteBody [c] =
     (if isHighSurrogate c \<or> isLowSurrogate c then unicodeEscape c else quoteChar c)"
| "quoteBody (c # d # ds) =
     (if isHighSurrogate c \<and> isLowSurrogate d then c # d # quoteBody ds
      else if isHighSurrogate c \<or> isLowSurrogate c then unicodeEscape c @ quoteBody (d # ds)
      else quoteChar c @ quoteBody (d # ds))"

definition quoteJSONString :: "jsstring \<Rightarrow> jsstring" where
  "quoteJSONString s = [0x22] @ quoteBody s @ [0x22]"

text \<open>
  SerializeJSONProperty without indentation: a number that is not finite is written
  \<open>null\<close>, the elements of an array and the members of an object are joined by commas.
\<close>

fun commaSep :: "jsstring list \<Rightarrow> jsstring" where
  "commaSep [] = []"
| "commaSep [x] = x"
| "commaSep (x # y # ys) = x @ js '','' @ commaSep (y # ys)"

fun serialize :: "json \<Rightarrow> jsstring" where
  "serialize JNull = js ''null''"
| "serialize (JBool b) = (if b then js ''true'' else js ''false'')"
| "serialize (JNumber x) = (case x of NaN \<Rightarrow> js ''null'' | Fin q \<Rightarrow> numberToString x)"
| "serialize (JString s) = quoteJSONString s"
| "serialize (JArray vs) = js ''['' @ commaSep (map serialize vs) @ js '']''"
| "serialize (JObject ms) =
     js ''{'' @ commaSep (map (\<lambda>(k, v). quoteJSONString k @ js '':'' @ serialize v) ms) @ js ''}''"

text \<open>
  The properties of an order as \<open>JSON.stringify\<close> walks them, in the order the object
  literal of \<open>collectFormData\<close> creates them. A property whose value is a function is
  left out; the prototype object (the value inherited under \<open>__proto__\<close>) has no
  enumerable property of its own and is written \<open>{}\<close>.
\<close>

definition orderProperties :: "order \<Rightarrow> (jsstring \<times> json) list" where
  "orderProperties ord =
     [(js ''customerName'', JString (customerName ord)),
      (js ''phoneNumber'', JString (phoneNumber ord)),
      (js ''hamburgerType'', JString (hamburgerType ord)),
      (js ''quantity'', JNumber (quantity ord)),
      (js ''specialInstructions'', JString (specialInstructions ord))]
     @ (case unitPrice ord of
          Number x \<Rightarrow> [(js ''unitPrice'', JNumber x)]
        | Inherited name \<Rightarrow>
            if name = js ''__proto__'' then [(js ''unitPrice'', JObject [])] else [])
     @ [(js ''totalPrice'', JNumber (totalPrice ord)),
        (js ''status'', JString (status ord)),
        (js ''orderDate'', JString (orderDate ord)),
        (js ''orderId'', JString (orderId ord))]"

definition JSON_stringify :: "order list \<Rightarrow> jsstring" where
  "JSON_stringify os = serialize (JArray (map (\<lambda>ord. JObject (orderProperties ord)) os))"

subsection \<open>JSON.parse\<close>

definition isJsonSpace :: "jschar \<Rightarrow> bool" where
  "isJsonSpace c = (c = 0x20 \<or> c = 0x09 \<or> c = 0x0A \<or> c = 0x0D)"

definition skipWs :: "jsstring \<Rightarrow> jsstring" where
  "skipWs s = dropWhile isJsonSpace s"

definition parseHex4 :: "jsstring \<Rightarrow> jschar option" where
  "parseHex4 hs =
     (case map (digitValue 16) hs of
        [Some a, Some b, Some c, Some d] \<Rightarrow> Some (of_nat (((a * 16 + b) * 16 + c) * 16 + d))
      | _ \<Rightarrow> None)"

definition unescape :: "jschar \<Rightarrow> jschar option" where
  "unescape e =
     (if e = 0x22 \<or> e = 0x5C \<or> e = 0x2F then Some e
      else if e = chr CHR ''b'' then Some 0x08
      else if e = chr CHR ''f'' then Some 0x0C
      else if e = chr CHR ''n'' then Some 0x0A
      else if e = chr CHR ''r'' then Some 0x0D
      else if e = chr CHR ''t'' then Some 0x09
      else None)"

definition consTo :: "jschar \<Rightarrow> (jsstring \<times> jsstring) option \<Rightarrow> (jsstring \<times> jsstring) option" where
  "consTo c r = (case r of None \<Rightarrow> None | Some (s, rest) \<Rightarrow> Some (c # s, rest))"

text \<open>The characters of a string after its opening quote, and what follows the closing one.\<close>

fun parseStringBody :: "jsstring \<Rightarrow> (jsstring \<times> jsstring) option" where
  "parseStringBody [] = None"
| "parseStringBody (c # cs) =
     (if c = 0x22 then Some ([], cs)
      else if c = 0x5C then
        (case cs of
           [] \<Rightarrow> None
         | e # es \<Rightarrow>
             if e = chr CHR ''u'' then
               (case es of
                  h1 # h2 # h3 # h4 # rest \<Rightarrow>
                    (case parseHex4 [h1, h2, h3, h4] of
                       None \<Rightarrow> None
                     | Some u \<Rightarrow> consTo u (parseStringBody rest))
                | _ \<Rightarrow> None)
             else (case unescape e of
                     None \<Rightarrow> None
                   | Some x \<Rightarrow> consTo x (parseStringBody es)))
      else if c < 0x20 then None
      else consTo c (parseStringBody cs))"

text \<open>
  A number: an optional minus, an integer part without a leading zero, an optional
  fraction, an optional exponent. Its value is the decimal it writes, rounded.
\<close>

definition parseNumber :: "jsstring \<Rightarrow> (jsnum \<times> jsstring) option" where
  "parseNumber s =
     (let (negative, s1) = (case s of c # cs \<Rightarrow> if c = chr CHR ''-'' then (True, cs) else (False, s)
                                     | [] \<Rightarrow> (False, s));
          ip = takeWhile isDigit s1;
          s2 = dropWhile isDigit s1;
          (fp, s3) = (case s2 of
                        c # cs \<Rightarrow> if c = chr CHR ''.'' then (takeWhile isDigit cs, dropWhile isDigit cs)
                                  else ([], s2)
                      | [] \<Rightarrow> ([], s2));
          hasFraction = (case s2 of c # cs \<Rightarrow> c = chr CHR ''.'' | [] \<Rightarrow> False);
          hasExponent = (case s3 of c # cs \<Rightarrow> c = chr CHR ''e'' \<or> c = chr CHR ''E'' | [] \<Rightarrow> False);
          s4 = (if hasExponent then tl s3 else s3);
          (expNegative, s5) =
             (if hasExponent
              then (case s4 of c # cs \<Rightarrow> if c = chr CHR ''-'' then (True, cs)
                                         else if c = chr CHR ''+'' then (False, cs) else (False, s4)
                             | [] \<Rightarrow> (False, s4))
              else (False, s4));
          ep = (if hasExponent then takeWhile isDigit s5 else []);
          s6 = (if hasExponent then dropWhile isDigit s5 else s5);
          ex = (if expNegative then - int (digitsValue 10 ep) else int (digitsValue 10 ep));
          m = of_nat (digitsValue 10 (ip @ fp)) * 10 powi (ex - int (length fp))
      in if ip = [] \<or> (hd ip = chr CHR ''0'' \<and> length ip \<noteq> 1) \<or> (hasFraction \<and> fp = []) \<or>
            (hasExponent \<and> ep = [])
         then None
         else Some (Fin (fl (if negative then - m else m)), s6))"

text \<open>
  The recursive descent on values, array elements and object members. Every call is given
  the fuel left; \<open>JSON_parse\<close> starts with more than twice the length of the text.
\<close>

fun parseValue :: "nat \<Rightarrow> jsstring \<Rightarrow> (json \<times> jsstring) option"
  and parseElements :: "nat \<Rightarrow> jsstring \<Rightarrow> json list \<Rightarrow> (json \<times> jsstring) option"
  and parseMembers :: "nat \<Rightarrow> jsstring \<Rightarrow> (jsstring \<times> json) list \<Rightarrow> (json \<times> jsstring) option"
where
  "parseValue 0 s = None"
| "parseValue (Suc fuel) s =
     (case s of
        [] \<Rightarrow> None
      | c # cs \<Rightarrow>
          if c = chr CHR ''{'' then
            (case skipWs cs of
               [] \<Rightarrow> None
             | d # ds \<Rightarrow> if d = chr CHR ''}'' then Some (JObject [], ds)
                        else parseMembers fuel (d # ds) [])
          else if c = chr CHR ''['' then
            (case skipWs cs of
               [] \<Rightarrow> None
             | d # ds \<Rightarrow> if d = chr CHR '']'' then Some (JArray [], ds)
                        else parseElements fuel (d # ds) [])
          else if c = 0x22 then
            (case parseStringBody cs of None \<Rightarrow> None | Some (str, rest) \<Rightarrow> Some (JString str, rest))
          else if take 4 s = js ''true'' then Some (JBool True, drop 4 s)
          else if take 5 s = js ''false'' then Some (JBool False, drop 5 s)
          else if take 4 s = js ''null'' then Some (JNull, drop 4 s)
          else (case parseNumber s of None \<Rightarrow> None | Some (x, rest) \<Rightarrow> Some (JNumber x, rest)))"
| "parseElements 0 s acc = None"
| "parseElements (Suc fuel) s acc =
     (case parseValue fuel s of
        None \<Rightarrow> None
      | Some (v, rest) \<Rightarrow>
          (case skipWs rest of
             [] \<Rightarrow> None
           | d # ds \<Rightarrow>
               if d = chr CHR '','' then parseElements fuel (skipWs ds) (acc @ [v])
               else if d = chr CHR '']'' then Some (JArray (acc @ [v]), ds)
               else None))"
| "parseMembers 0 s acc = None"
| "parseMembers (Suc fuel) s acc =
     (case s of
        [] \<Rightarrow> None
      | q # cs \<Rightarrow>
          if q \<noteq> 0x22 then None
          else (case parseStringBody cs of
                  None \<Rightarrow> None
                | Some (k, rest) \<Rightarrow>
                    (case skipWs rest of
                       [] \<Rightarrow> None
                     | c # r1 \<Rightarrow>
                         if c \<noteq> chr CHR '':'' then None
                         else (case parseValue fuel (skipWs r1) of
                                 None \<Rightarrow> None
                               | Some (v, r2) \<Rightarrow>
                                   (case skipWs r2 of
                                      [] \<Rightarrow> None
                                    | d # ds \<Rightarrow>
                                        if d = chr CHR '','' then
                                          parseMembers fuel (skipWs ds) (acc @ [(k, v)])
                                        else if d = chr CHR ''}'' then
                                          Some (JObject (acc @ [(k, v)]), ds)
                                        else None)))))"

definition JSON_parse :: "jsstring \<Rightarrow> exn + json" where
  "JSON_parse text =
     (case parseValue (2 * length text + 2) (skipWs text) of
        None \<Rightarrow> Inl SyntaxError
      | Some (v, rest) \<Rightarrow> if skipWs rest = [] then Inr v else Inl SyntaxError)"

section \<open>The order store and the confirmation workflow\<close>

text \<open>
  A parsed value as an order: an object that has the ten properties with values of the
  right kind (the last of several members of one name is the one the object keeps).
\<close>

definition decodeOrder :: "json \<Rightarrow> order option" where
  "decodeOrder v =
     (case v of
        JObject ms \<Rightarrow>
          (let get = map_of (rev ms) in
           case (get (js ''customerName''), get (js ''phoneNumber''), get (js ''hamburgerType''),
                 get (js ''quantity''), get (js ''specialInstructions''), get (js ''unitPrice''),
                 get (js ''totalPrice''), get (js ''status''), get (js ''orderDate''),
                 get (js ''orderId'')) of
             (Some (JString cn), Some (JString pn), Some (JString ht), Some (JNumber qy),
              Some (JString si), Some (JNumber up), Some (JNumber tp), Some (JString sa),
              Some (JString od), Some (JString oi)) \<Rightarrow>
               Some \<lparr>customerName = cn, phoneNumber = pn, hamburgerType = ht, quantity = qy,
                     specialInstructions = si, unitPrice = Number up, totalPrice = tp,
                     status = sa, orderDate = od, orderId = oi\<rparr>
           | _ \<Rightarrow> None)
      | _ \<Rightarrow> None)"

fun decodeOrders :: "json list \<Rightarrow> order list option" where
  "decodeOrders [] = Some []"
| "decodeOrders (v # vs) =
     (case decodeOrder v of
        None \<Rightarrow> None
      | Some d \<Rightarrow> (case decodeOrders vs of None \<Rightarrow> None | Some ds \<Rightarrow> Some (d # ds)))"

text \<open>
  \<open>loadOrdersFromStorage\<close>: the \<open>catch\<close> branch (the read or \<open>JSON.parse\<close> throws) and the
  falsy branch give the empty sequence. A stored text that parses to something other than
  an array of orders is what \<open>this.orders\<close> then holds; the result \<open>Inl\<close> hands that value
  out, since the field \<open>orders\<close> of the model has no place for it.
\<close>

definition loadOrdersFromStorage :: "storage \<Rightarrow> json + order list" where
  "loadOrdersFromStorage st =
     (case getItem st ordersKey of
        Inl e \<Rightarrow> Inr []
      | Inr stored \<Rightarrow>
          (case stored of
             None \<Rightarrow> Inr []
           | Some s \<Rightarrow>
               if s \<noteq> [] then
                 (case JSON_parse s of
                    Inl e \<Rightarrow> Inr []
                  | Inr v \<Rightarrow>
                      (case v of
                         JArray vs \<Rightarrow> (case decodeOrders vs of Some os \<Rightarrow> Inr os | None \<Rightarrow> Inl v)
                       | _ \<Rightarrow> Inl v))
               else Inr []))"

definition saveOrdersToStorage :: "app \<Rightarrow> app" where
  "saveOrdersToStorage a =
     (case setItem (localStorage a) ordersKey (JSON_stringify (orders a)) of
        Inr st \<Rightarrow> a\<lparr>localStorage := st\<rparr>
      | Inl e \<Rightarrow> a)"

text \<open>The constructor, on the storage the page finds.\<close>

definition newBurgerCraftApp :: "storage \<Rightarrow> app option" where
  "newBurgerCraftApp st =
     (case loadOrdersFromStorage st of
        Inl v \<Rightarrow> None
      | Inr os \<Rightarrow>
          Some \<lparr>orders = os, orderCounter = loadOrderCounterFromStorage st, currentOrder = None,
                localStorage = st\<rparr>)"

text \<open>
  \<open>handleFormSubmit\<close>: an invalid form changes nothing; a valid one builds the draft.
  (After a valid form \<open>collectFormData\<close> cannot throw; were it to throw, it would do so
  before any change.)
\<close>

definition handleFormSubmit :: "app \<Rightarrow> form \<Rightarrow> jsstring \<Rightarrow> app" where
  "handleFormSubmit a f now =
     (if \<not> fst (validateForm f) then a
      else case collectFormData a f now of
             Inl e \<Rightarrow> a
           | Inr (formData, a') \<Rightarrow> a'\<lparr>currentOrder := Some formData\<rparr>)"

definition closeConfirmationModal :: "app \<Rightarrow> app" where
  "closeConfirmationModal a = a\<lparr>currentOrder := None\<rparr>"

definition confirmOrder :: "app \<Rightarrow> app" where
  "confirmOrder a =
     (case currentOrder a of
        None \<Rightarrow> a
      | Some draft \<Rightarrow>
          let a = a\<lparr>orders := draft # orders a\<rparr>;
              a = saveOrdersToStorage a
          in closeConfirmationModal a)"

definition closeSuccessModal :: "app \<Rightarrow> app" where
  "closeSuccessModal a = a"

text \<open>
  What the user can do in one page session, and a page reload, which constructs the
  application again from the storage.
\<close>

datatype event = Submit form jsstring | Confirm | Cancel | CloseSuccess

fun handle :: "app \<Rightarrow> event \<Rightarrow> app" where
  "handle a (Submit f now) = handleFormSubmit a f now"
| "handle a Confirm = confirmOrder a"
| "handle a Cancel = closeConfirmationModal a"
| "handle a CloseSuccess = closeSuccessModal a"

datatype action = User event | Reload

fun act :: "app \<Rightarrow> action \<Rightarrow> app option" where
  "act a (User e) = Some (handle a e)"
| "act a Reload = newBurgerCraftApp (localStorage a)"

fun run :: "app \<Rightarrow> action list \<Rightarrow> app option" where
  "run a [] = Some a"
| "run a (x # xs) = (case act a x of None \<Rightarrow> None | Some a' \<Rightarrow> run a' xs)"

text \<open>The orders built along a run, in the order they were built.\<close>

definition builtBy :: "app \<Rightarrow> action \<Rightarrow> order list" where
  "builtBy a x =
     (case x of
        User (Submit f now) \<Rightarrow>
          (if fst (validateForm f)
           then (case collectFormData a f now of Inr (d, a') \<Rightarrow> [d] | Inl e \<Rightarrow> [])
           else [])
      | _ \<Rightarrow> [])"

fun built :: "app \<Rightarrow> action list \<Rightarrow> order list" where
  "built a [] = []"
| "built a (x # xs) =
     builtBy a x @ (case act a x of None \<Rightarrow> [] | Some a' \<Rightarrow> built a' xs)"

section \<open>Notions the properties are stated with\<close>


text \<open>No draft is outstanding, or the outstanding draft is pending.\<close>

definition draftPending :: "app \<Rightarrow> bool" where
  "draftPending a = (case currentOrder a of None \<Rightarrow> True | Some d \<Rightarrow> status d = js ''Pending'')"


section \<open>Properties\<close>

subsection \<open>Rounding\<close>

lemma round_even_of_int: "round_even (of_int k) = k"
  by (simp add: round_even_def)

lemma ilog2_of_int:
  assumes "0 < m"
  shows "ilog 2 (of_int m) = int (floorlog 2 (nat m)) - 1"
  using assms by (simp add: ilog_def)

lemma fl_of_int:
  assumes "\<bar>n\<bar> \<le> 2 ^ 53"
  shows "fl (of_int n) = of_int n"
proof (cases "n = 0")
  case True
  then show ?thesis by (simp add: fl_def)
next
  case False
  define m where "m = \<bar>n\<bar>"
  define L where "L = floorlog 2 (nat m)"
  have mpos: "0 < m" using False by (simp add: m_def)
  have b: "2 ^ (L - 1) \<le> nat m" "nat m < 2 ^ L"
    using floorlog_bounds[of "nat m" 2] mpos by (simp_all add: L_def)
  have L1: "1 \<le> L"
    using b(2) mpos by (cases L) auto
  have "(2::nat) ^ (L - 1) \<le> 2 ^ 53"
  proof -
    have "nat m \<le> 2 ^ 53" using assms by (simp add: m_def nat_le_iff)
    with b(1) show ?thesis by linarith
  qed
  then have "L - 1 \<le> 53"
    by (rule power_le_imp_le_exp[of "2::nat", rotated]) simp
  then have L54: "L \<le> 54"
    by simp
  have il: "ilog 2 \<bar>of_int n\<bar> = int L - 1"
    using ilog2_of_int[OF mpos] by (simp add: m_def L_def)
  have flq: "fl (of_int n) =
      of_int (round_even (of_int n / 2 powi (int L - 53))) * 2 powi (int L - 53)"
    using False il by (simp add: fl_def Let_def)
  show ?thesis
  proof (cases "L \<le> 53")
    case True
    define j where "j = 53 - L"
    have u: "(2::rat) powi (int L - 53) = 1 / 2 ^ j"
    proof -
      have "int L - 53 = - int j" using True by (simp add: j_def)
      then show ?thesis by (simp add: power_int_minus_divide)
    qed
    have q: "of_int n / (1 / 2 ^ j) = (of_int (n * 2 ^ j) :: rat)"
      by simp
    have "fl (of_int n) = of_int (round_even (of_int (n * 2 ^ j))) * (1 / 2 ^ j)"
      unfolding flq u q ..
    also have "\<dots> = of_int (n * 2 ^ j) * (1 / 2 ^ j)"
      unfolding round_even_of_int ..
    also have "\<dots> = of_int n"
      by simp
    finally show ?thesis .
  next
    case F: False
    with L54 have L: "L = 54" by simp
    have "2 ^ 53 \<le> nat m" using b(1) L by simp
    then have me: "m = 2 ^ 53" using assms by (simp add: m_def le_nat_iff)
    have nn: "n = 2 ^ 53 \<or> n = - (2 ^ 53)"
      using me by (auto simp: m_def abs_if split: if_splits)
    have u: "(2::rat) powi (int L - 53) = 2"
      by (simp add: L)
    have r: "round_even (2 ^ 53 / 2) = 2 ^ 52" "round_even (- (2 ^ 53) / 2) = - (2 ^ 52)"
      by (simp_all add: round_even_def)
    from nn show ?thesis
      unfolding flq u using r by auto
  qed
qed





subsection \<open>Values of the literals and of the validator\<close>












lemma validateForm_ok:
  assumes "fst (validateForm f)"
  shows "trim (customerNameValue f) \<noteq> []" "trim (phoneNumberValue f) \<noteq> []"
    "isValidPhoneNumber (phoneNumberValue f)" "checkedHamburgerType f \<noteq> None"
  using assms by (auto simp: validateForm_def split: if_splits)

subsection \<open>Digits and the counter\<close>











lemma fl_of_nat: "n \<le> 2 ^ 53 \<Longrightarrow> fl (of_nat n) = of_nat n"
  using fl_of_int[of "int n"] by simp

lemma numberToString_nat:
  assumes "n \<le> 2 ^ 53"
  shows "numberToString (Fin (of_nat n)) = decimal n"
proof (cases "n = 0")
  case True
  then show ?thesis
    by (simp add: decimal.simps[of 0] digitChar_def js_def chr_def)
next
  case False
  have "(of_nat n :: rat) \<le> 2 ^ 53"
    using assms by (metis of_nat_le_iff of_nat_numeral of_nat_power)
  with False show ?thesis
    by (simp add: positiveToString_def)
qed

lemma js_inc_nat:
  assumes "Suc n \<le> 2 ^ 53"
  shows "js_inc (Fin (of_nat n)) = Fin (of_nat (Suc n))"
proof -
  have "(of_nat n :: rat) + 1 = of_nat (Suc n)" by simp
  then have "fl (of_nat n + 1) = of_nat (Suc n)"
    using fl_of_nat[OF assms] by (simp only:)
  then show ?thesis by (simp only: js_inc.simps)
qed

subsection \<open>What the handlers change\<close>

lemma saveOrderCounter_fields [simp]:
  "orders (saveOrderCounterToStorage a) = orders a"
  "orderCounter (saveOrderCounterToStorage a) = orderCounter a"
  "currentOrder (saveOrderCounterToStorage a) = currentOrder a"
  "readable (localStorage (saveOrderCounterToStorage a)) = readable (localStorage a)"
  "writable (localStorage (saveOrderCounterToStorage a)) = writable (localStorage a)"
  by (simp_all add: saveOrderCounterToStorage_def setItem_def)

lemma keys_differ: "ordersKey \<noteq> counterKey"
  by (simp add: ordersKey_def counterKey_def js_def chr_def)

lemma saveOrderCounter_items:
  "items (localStorage (saveOrderCounterToStorage a)) =
     (if writable (localStorage a)
      then (items (localStorage a))(counterKey \<mapsto> numberToString (orderCounter a))
      else items (localStorage a))"
  by (simp add: saveOrderCounterToStorage_def setItem_def)

lemma generateOrderId_fields [simp]:
  "orders (snd (generateOrderId a)) = orders a"
  "orderCounter (snd (generateOrderId a)) = js_inc (orderCounter a)"
  "currentOrder (snd (generateOrderId a)) = currentOrder a"
  "readable (localStorage (snd (generateOrderId a))) = readable (localStorage a)"
  "writable (localStorage (snd (generateOrderId a))) = writable (localStorage a)"
  by (simp_all add: generateOrderId_def Let_def)

lemma generateOrderId_items:
  "items (localStorage (snd (generateOrderId a))) =
     (if writable (localStorage a)
      then (items (localStorage a))(counterKey \<mapsto> numberToString (js_inc (orderCounter a)))
      else items (localStorage a))"
  by (simp add: generateOrderId_def Let_def saveOrderCounter_items)


lemma collectFormData_checked:
  assumes "checkedHamburgerType f = Some t"
  shows "\<exists>d. collectFormData a f now = Inr (d, snd (generateOrderId a)) \<and>
             status d = js ''Pending'' \<and> orderId d = fst (generateOrderId a)"
  using assms by (simp add: collectFormData_def Let_def split_beta)

lemma handleFormSubmit_valid:
  assumes "fst (validateForm f)"
  shows "\<exists>d. collectFormData a f now = Inr (d, snd (generateOrderId a)) \<and>
             handleFormSubmit a f now = (snd (generateOrderId a))\<lparr>currentOrder := Some d\<rparr> \<and>
             status d = js ''Pending'' \<and> orderId d = fst (generateOrderId a)"
proof -
  from validateForm_ok(4)[OF assms] obtain t where "checkedHamburgerType f = Some t"
    by blast
  from collectFormData_checked[OF this, of a now] obtain d where
    "collectFormData a f now = Inr (d, snd (generateOrderId a))"
    "status d = js ''Pending''" "orderId d = fst (generateOrderId a)"
    by blast
  then show ?thesis
    using assms by (simp add: handleFormSubmit_def)
qed

lemma handleFormSubmit_invalid:
  "\<not> fst (validateForm f) \<Longrightarrow> handleFormSubmit a f now = a"
  by (simp add: handleFormSubmit_def)

lemma saveOrders_fields [simp]:
  "orders (saveOrdersToStorage a) = orders a"
  "orderCounter (saveOrdersToStorage a) = orderCounter a"
  "currentOrder (saveOrdersToStorage a) = currentOrder a"
  "readable (localStorage (saveOrdersToStorage a)) = readable (localStorage a)"
  "writable (localStorage (saveOrdersToStorage a)) = writable (localStorage a)"
  by (simp_all add: saveOrdersToStorage_def setItem_def)

lemma saveOrders_items:
  "items (localStorage (saveOrdersToStorage a)) =
     (if writable (localStorage a)
      then (items (localStorage a))(ordersKey \<mapsto> JSON_stringify (orders a))
      else items (localStorage a))"
  by (simp add: saveOrdersToStorage_def setItem_def)

lemma confirmOrder_idle: "currentOrder a = None \<Longrightarrow> confirmOrder a = a"
  by (simp add: confirmOrder_def)

lemma confirmOrder_draft:
  assumes "currentOrder a = Some d"
  shows "orders (confirmOrder a) = d # orders a"
    and "currentOrder (confirmOrder a) = None"
    and "orderCounter (confirmOrder a) = orderCounter a"
    and "items (localStorage (confirmOrder a)) =
           (if writable (localStorage a)
            then (items (localStorage a))(ordersKey \<mapsto> JSON_stringify (d # orders a))
            else items (localStorage a))"
    and "readable (localStorage (confirmOrder a)) = readable (localStorage a)"
    and "writable (localStorage (confirmOrder a)) = writable (localStorage a)"
  using assms by (simp_all add: confirmOrder_def closeConfirmationModal_def Let_def saveOrders_items)

subsection \<open>When the product is a number\<close>







lemmas phone_eval =
  isValidPhoneNumber_def regex_test_def phoneRegex_def stripWhiteSpace_def js_def chr_def
  isWhiteSpace_def in_class_def isDigit_def

subsection \<open>The example phone numbers\<close>

text \<open>
  C1, as the specification states it, has \<open>"123"\<close> rejected. The first alternative of the
  pattern accepts a digit 1-9 followed by zero to fifteen digits, so \<open>"123"\<close> is accepted
  and \<open>validateForm\<close> leaves the phone field unmarked.
\<close>

theorem C1_short_number_accepted:
  "isValidPhoneNumber (js ''123'') \<and>
   \<not> marked PhoneNumberInput (snd (validateForm
       \<lparr>customerNameValue = js ''Ann'', phoneNumberValue = js ''123'',
        checkedHamburgerType = Some (js ''Classic Beef Burger''), quantityValue = js ''1'',
        specialInstructionsValue = js ''''\<rparr>))"
  by (simp add: validateForm_def marked_def trim_def phone_eval)

text \<open>
  C1 (amended): \<open>"+15551234567"\<close>, \<open>"(555) 123-4567"\<close> and \<open>"123"\<close> are accepted by
  \<open>isValidPhoneNumber\<close>, and \<open>validateForm\<close> does not mark the phone field for
  \<open>"123"\<close>; the empty string is rejected by \<open>isValidPhoneNumber\<close>, and \<open>validateForm\<close>
  marks the phone field invalid and fails for it, whatever the other fields hold.
\<close>

theorem C1_phone_examples:
  "isValidPhoneNumber (js ''+15551234567'') \<and>
   isValidPhoneNumber (js ''(555) 123-4567'') \<and>
   isValidPhoneNumber (js ''123'') \<and>
   \<not> marked PhoneNumberInput (snd (validateForm (f\<lparr>phoneNumberValue := js ''123''\<rparr>))) \<and>
   \<not> isValidPhoneNumber (js '''') \<and>
   marked PhoneNumberInput (snd (validateForm (f\<lparr>phoneNumberValue := js ''''\<rparr>))) \<and>
   \<not> fst (validateForm (f\<lparr>phoneNumberValue := js ''''\<rparr>))"
proof -
  have a: "isValidPhoneNumber (js ''+15551234567'')"
    by (simp add: phone_eval)
  have b: "isValidPhoneNumber (js ''(555) 123-4567'')"
    by (simp add: phone_eval)
  have c: "isValidPhoneNumber (js ''123'')"
    by (simp add: phone_eval)
  have c': "trim (js ''123'') \<noteq> []"
    by (simp add: trim_def js_def chr_def isWhiteSpace_def)
  have d: "\<not> isValidPhoneNumber (js '''')"
    by (simp add: phone_eval)
  have e: "trim (js '''') = []"
    by (simp add: trim_def js_def)
  have m: "\<not> marked PhoneNumberInput (snd (validateForm (f\<lparr>phoneNumberValue := js ''123''\<rparr>)))"
    using c c' by (simp add: validateForm_def marked_def)
  have n: "marked PhoneNumberInput (snd (validateForm (f\<lparr>phoneNumberValue := js ''''\<rparr>)))"
    using e by (simp add: validateForm_def marked_def)
  have v: "\<not> fst (validateForm (f\<lparr>phoneNumberValue := js ''''\<rparr>))"
    using e by (simp add: validateForm_def)
  from a b c m d n v show ?thesis by blast
qed

subsection \<open>The language of the phone pattern\<close>

lemma quant_iff:
  "(j, t) \<in> set (quant cls lo hi (i, s)) \<longleftrightarrow>
   (\<exists>k. k \<le> length s \<and> lo \<le> k \<and> (case hi of None \<Rightarrow> True | Some h \<Rightarrow> k \<le> h) \<and>
        list_all (in_class cls) (take k s) \<and> j = i + k \<and> t = drop k s)"
proof (induction s arbitrary: lo hi i)
  case Nil
  then show ?case by (auto split: option.splits)
next
  case (Cons c cs)
  have split_k: "\<And>P. (\<exists>k. P k) \<longleftrightarrow> P 0 \<or> (\<exists>k. P (Suc k))"
    by (metis not0_implies_Suc)
  show ?case
    apply (subst split_k)
    apply (simp add: Cons.IH)
    apply (cases hi)
     apply (auto)
    done
qed

lemma steps_Seq_nonempty:
  "steps (Seq a b) x \<noteq> [] \<longleftrightarrow> (\<exists>y \<in> set (steps a x). steps b y \<noteq> [])"
  by auto

lemma quant_nonempty:
  "quant cls lo hi (i, s) \<noteq> [] \<longleftrightarrow> (\<exists>j t. (j, t) \<in> set (quant cls lo hi (i, s)))"
  by (cases "quant cls lo hi (i, s)") auto

lemma seq_Bol:
  "steps (Seq Bol r) (i, s) \<noteq> [] \<longleftrightarrow> i = 0 \<and> steps r (0, s) \<noteq> []"
  by auto

lemma seq_Cls:
  "steps (Seq (Cls cls) r) (i, s) \<noteq> [] \<longleftrightarrow>
   (\<exists>d ds. s = d # ds \<and> in_class cls d \<and> steps r (Suc i, ds) \<noteq> [])"
  by (cases s) auto

lemma seq_Quant:
  "steps (Seq (Quant cls lo hi) r) (i, s) \<noteq> [] \<longleftrightarrow>
   (\<exists>k. k \<le> length s \<and> lo \<le> k \<and> (case hi of None \<Rightarrow> True | Some h \<Rightarrow> k \<le> h) \<and>
        list_all (in_class cls) (take k s) \<and> steps r (i + k, drop k s) \<noteq> [])"
proof -
  have "steps (Seq (Quant cls lo hi) r) (i, s) \<noteq> [] \<longleftrightarrow>
        (\<exists>j t. (j, t) \<in> set (quant cls lo hi (i, s)) \<and> steps r (j, t) \<noteq> [])"
    by auto
  then show ?thesis
    unfolding quant_iff by blast
qed

lemma steps_Eol: "steps Eol (i, s) \<noteq> [] \<longleftrightarrow> s = []"
  by simp

lemma quant_Eol:
  "steps (Seq (Quant cls lo hi) Eol) (i, s) \<noteq> [] \<longleftrightarrow>
   lo \<le> length s \<and> (case hi of None \<Rightarrow> True | Some h \<Rightarrow> length s \<le> h) \<and>
   list_all (in_class cls) s"
  (is "?L \<longleftrightarrow> ?R")
proof
  assume ?L
  then obtain k where k: "k \<le> length s" "lo \<le> k"
      "case hi of None \<Rightarrow> True | Some h \<Rightarrow> k \<le> h"
      "list_all (in_class cls) (take k s)" "drop k s = []"
    unfolding seq_Quant steps_Eol by blast
  from k(1,5) have "k = length s" by simp
  with k show ?R by (auto split: option.splits)
next
  assume ?R
  then have "length s \<le> length s \<and> lo \<le> length s \<and>
      (case hi of None \<Rightarrow> True | Some h \<Rightarrow> length s \<le> h) \<and>
      list_all (in_class cls) (take (length s) s) \<and> drop (length s) s = []"
    by simp
  then show ?L
    unfolding seq_Quant steps_Eol by blast
qed

lemma le_one_cases: "(\<exists>k::nat. k \<le> 1 \<and> P k) \<longleftrightarrow> P 0 \<or> P 1"
proof
  assume "\<exists>k. k \<le> 1 \<and> P k"
  then obtain k where "k \<le> 1" "P k" by blast
  then have "k = 0 \<or> k = 1" by arith
  with \<open>P k\<close> show "P 0 \<or> P 1" by blast
next
  assume "P 0 \<or> P 1"
  then show "\<exists>k. k \<le> 1 \<and> P k"
    by (metis le_refl zero_le_one)
qed

lemma in_class_plus: "in_class [Lit a] c \<longleftrightarrow> c = a"
  by (simp add: in_class_def)

lemma alt1_iff:
  "steps (Seq Bol (Seq (Quant [Lit (chr CHR ''+'')] 0 (Some 1))
            (Seq (Cls [Range (chr CHR ''1'') (chr CHR ''9'')])
              (Seq (Quant [Digit] 0 (Some 15)) Eol)))) (i, s) \<noteq> []
   \<longleftrightarrow> i = 0 \<and> intlFormat s"
proof -
  have digits: "in_class [Digit] = isDigit"
    by (auto simp: in_class_def)
  have r19: "\<And>d. in_class [Range (chr CHR ''1'') (chr CHR ''9'')] d \<longleftrightarrow>
                chr CHR ''1'' \<le> d \<and> d \<le> chr CHR ''9''"
    by (simp add: in_class_def)
  have plus: "\<not> (chr CHR ''1'' \<le> chr CHR ''+'')"
    by (simp add: chr_def)
  let ?tail = "\<lambda>t. \<exists>d ds. t = d # ds \<and> chr CHR ''1'' \<le> d \<and> d \<le> chr CHR ''9'' \<and>
                 length ds \<le> 15 \<and> list_all isDigit ds"
  have "steps (Seq Bol (Seq (Quant [Lit (chr CHR ''+'')] 0 (Some 1))
            (Seq (Cls [Range (chr CHR ''1'') (chr CHR ''9'')])
              (Seq (Quant [Digit] 0 (Some 15)) Eol)))) (i, s) \<noteq> []
     \<longleftrightarrow> i = 0 \<and> (\<exists>k. k \<le> 1 \<and> (k \<le> length s \<and>
            list_all (\<lambda>c. c = chr CHR ''+'') (take k s) \<and> ?tail (drop k s)))"
    by (subst seq_Bol, subst seq_Quant, subst seq_Cls, subst quant_Eol)
       (auto simp add: digits r19 in_class_plus[abs_def])
  also have "\<dots> \<longleftrightarrow> i = 0 \<and> intlFormat s"
    unfolding le_one_cases
    using plus by (cases s) (auto simp: intlFormat_def split: list.splits)
  finally show ?thesis .
qed

lemma alt2_iff:
  "steps (Seq Bol (Seq (Quant [Lit (chr CHR ''('')] 0 (Some 1))
            (Seq (Quant [Digit, Space, Lit (chr CHR ''-''), Lit (chr CHR ''(''),
                         Lit (chr CHR '')'')] 10 None) Eol))) (i, s) \<noteq> []
   \<longleftrightarrow> i = 0 \<and> 10 \<le> length s \<and>
       list_all (\<lambda>c. isDigit c \<or> isWhiteSpace c \<or> c = chr CHR ''-'' \<or> c = chr CHR ''('' \<or>
                      c = chr CHR '')'') s"
proof -
  let ?C = "\<lambda>c. isDigit c \<or> isWhiteSpace c \<or> c = chr CHR ''-'' \<or> c = chr CHR ''('' \<or>
                      c = chr CHR '')''"
  have cls: "in_class [Digit, Space, Lit (chr CHR ''-''), Lit (chr CHR ''(''),
                         Lit (chr CHR '')'')] = ?C"
    by (auto simp: in_class_def)
  have "steps (Seq Bol (Seq (Quant [Lit (chr CHR ''('')] 0 (Some 1))
            (Seq (Quant [Digit, Space, Lit (chr CHR ''-''), Lit (chr CHR ''(''),
                         Lit (chr CHR '')'')] 10 None) Eol))) (i, s) \<noteq> []
     \<longleftrightarrow> i = 0 \<and> (\<exists>k. k \<le> 1 \<and> (k \<le> length s \<and>
            list_all (\<lambda>c. c = chr CHR ''('') (take k s) \<and>
            10 \<le> length (drop k s) \<and> list_all ?C (drop k s)))"
    by (subst seq_Bol, subst seq_Quant, subst quant_Eol)
       (auto simp add: cls in_class_plus[abs_def])
  also have "\<dots> \<longleftrightarrow> i = 0 \<and> 10 \<le> length s \<and> list_all ?C s"
    unfolding le_one_cases
    by (cases s) auto
  finally show ?thesis .
qed

lemma regex_test_anchored:
  assumes "\<And>i. steps r (i, drop i s) \<noteq> [] \<longleftrightarrow> i = 0 \<and> P"
  shows "regex_test r s \<longleftrightarrow> P"
  unfolding regex_test_def list_ex_iff using assms by auto

lemma phoneRegex_iff:
  "regex_test phoneRegex s \<longleftrightarrow>
     intlFormat s \<or>
     (10 \<le> length s \<and>
       list_all (\<lambda>c. isDigit c \<or> isWhiteSpace c \<or> c = chr CHR ''-'' \<or> c = chr CHR ''('' \<or>
                      c = chr CHR '')'') s)"
proof (rule regex_test_anchored)
  fix i
  have "steps phoneRegex (i, drop i s) \<noteq> [] \<longleftrightarrow>
        steps (Seq Bol (Seq (Quant [Lit (chr CHR ''+'')] 0 (Some 1))
            (Seq (Cls [Range (chr CHR ''1'') (chr CHR ''9'')])
              (Seq (Quant [Digit] 0 (Some 15)) Eol)))) (i, drop i s) \<noteq> [] \<or>
        steps (Seq Bol (Seq (Quant [Lit (chr CHR ''('')] 0 (Some 1))
            (Seq (Quant [Digit, Space, Lit (chr CHR ''-''), Lit (chr CHR ''(''),
                         Lit (chr CHR '')'')] 10 None) Eol))) (i, drop i s) \<noteq> []"
    unfolding phoneRegex_def by (simp only: steps.simps append_is_Nil_conv de_Morgan_conj)
  then show "steps phoneRegex (i, drop i s) \<noteq> [] \<longleftrightarrow> i = 0 \<and>
     (intlFormat s \<or>
     (10 \<le> length s \<and>
       list_all (\<lambda>c. isDigit c \<or> isWhiteSpace c \<or> c = chr CHR ''-'' \<or> c = chr CHR ''('' \<or>
                      c = chr CHR '')'') s))"
    unfolding alt1_iff alt2_iff by auto
qed

text \<open>
  C6, read as it is written, applies shape (a) to the input itself and strips blanks for
  shape (b) only. The source strips blanks before the whole pattern is tried, so
  \<open>"1 2 3"\<close> is accepted through shape (a).
\<close>

theorem C6_blanks_stripped_before_both:
  "\<not> (isValidPhoneNumber (js ''1 2 3'') \<longleftrightarrow>
      js ''1 2 3'' \<noteq> [] \<and>
      (intlFormat (js ''1 2 3'') \<or> localFormat (stripWhiteSpace (js ''1 2 3''))))"
  by (simp add: phone_eval intlFormat_def localFormat_def)

text \<open>
  C6 (amended): a string is accepted exactly when, with its blanks stripped, it is
  non-empty and has shape (a) or shape (b).
\<close>

theorem C6_phone_language:
  "isValidPhoneNumber s \<longleftrightarrow>
     (let t = stripWhiteSpace s in t \<noteq> [] \<and> (intlFormat t \<or> localFormat t))"
proof -
  have a: "intlFormat [] = False" by (simp add: intlFormat_def)
  have b: "localFormat [] = False" by (simp add: localFormat_def)
  have c: "list_all (\<lambda>c. isDigit c \<or> isWhiteSpace c \<or> c = chr CHR ''-'' \<or> c = chr CHR ''('' \<or>
                      c = chr CHR '')'') (stripWhiteSpace s) \<longleftrightarrow>
           list_all (\<lambda>c. isDigit c \<or> c = chr CHR ''('' \<or> c = chr CHR '')'' \<or> c = chr CHR ''-'')
             (stripWhiteSpace s)"
    by (auto simp: stripWhiteSpace_def list_all_iff)
  show ?thesis
    unfolding isValidPhoneNumber_def phoneRegex_iff Let_def c
    using a b by (auto simp: localFormat_def)
qed

subsection \<open>The pricing table\<close>

lemma getBurgerPrice_default:
  assumes "map_of prices burgerType = None" "burgerType \<notin> set objectPrototypeKeys"
  shows "getBurgerPrice burgerType = Number (literal (1299 / 100))"
  using assms by (simp add: getBurgerPrice_def)

text \<open>
  C9 has every string outside the catalog priced at the default 12.99. The lookup
  \<open>prices[burgerType]\<close> also finds what the object literal inherits, so for
  \<open>"constructor"\<close> or \<open>"toString"\<close> the function returns the inherited member, not a
  price: the source at the failing input.
\<close>

theorem C9_inherited_member_returned:
  "getBurgerPrice (js ''constructor'') = Inherited (js ''constructor'') \<and>
   getBurgerPrice (js ''toString'') = Inherited (js ''toString'')"
  by (simp add: getBurgerPrice_def prices_def objectPrototypeKeys_def js_def chr_def)

subsection \<open>Loading the counter\<close>

lemma loadOrderCounter_absent:
  "items st counterKey = None \<Longrightarrow> loadOrderCounterFromStorage st = Fin 1000"
  by (simp add: loadOrderCounterFromStorage_def getItem_def)

lemma loadOrderCounter_unreadable:
  "\<not> readable st \<Longrightarrow> loadOrderCounterFromStorage st = Fin 1000"
  by (simp add: loadOrderCounterFromStorage_def getItem_def)

text \<open>
  C7 has a corrupt stored counter replaced by 1000. \<open>parseInt\<close> does not throw on a
  string without digits, it returns \<open>NaN\<close>, so the \<open>catch\<close> branch is not taken: the
  source at the failing input, the stored string \<open>"abc"\<close>.
\<close>

theorem C7_corrupt_counter_is_NaN:
  "loadOrderCounterFromStorage
     \<lparr>items = [counterKey \<mapsto> js ''abc''], readable = True, writable = True\<rparr> = NaN"
  by (simp add: loadOrderCounterFromStorage_def getItem_def parseInt_def digitValue_def js_def
      chr_def isWhiteSpace_def)

subsection \<open>The built order\<close>




subsection \<open>Cancelling a draft\<close>

text \<open>
  C3, as the specification states it, has the persisted counter keep the increment of
  the build in every state. \<open>saveOrderCounterToStorage\<close> catches a rejected write and
  carries on, so on a storage that rejects writes a valid submit followed by a cancel
  leaves 1001 in memory and no persisted counter.
\<close>

theorem C3_increment_not_persisted:
  "fst (validateForm
     \<lparr>customerNameValue = js ''Ann'', phoneNumberValue = js ''+15551234567'',
      checkedHamburgerType = Some (js ''Classic Beef Burger''), quantityValue = js ''3'',
      specialInstructionsValue = js ''''\<rparr>) \<and>
   currentOrder (handleFormSubmit
     \<lparr>orders = [], orderCounter = Fin 1000, currentOrder = None,
      localStorage = \<lparr>items = Map.empty, readable = True, writable = False\<rparr>\<rparr>
     \<lparr>customerNameValue = js ''Ann'', phoneNumberValue = js ''+15551234567'',
      checkedHamburgerType = Some (js ''Classic Beef Burger''), quantityValue = js ''3'',
      specialInstructionsValue = js ''''\<rparr>
     (js ''2024-05-01T12:00:00.000Z'')) \<noteq> None \<and>
   orderCounter (closeConfirmationModal (handleFormSubmit
     \<lparr>orders = [], orderCounter = Fin 1000, currentOrder = None,
      localStorage = \<lparr>items = Map.empty, readable = True, writable = False\<rparr>\<rparr>
     \<lparr>customerNameValue = js ''Ann'', phoneNumberValue = js ''+15551234567'',
      checkedHamburgerType = Some (js ''Classic Beef Burger''), quantityValue = js ''3'',
      specialInstructionsValue = js ''''\<rparr>
     (js ''2024-05-01T12:00:00.000Z''))) = Fin 1001 \<and>
   items (localStorage (closeConfirmationModal (handleFormSubmit
     \<lparr>orders = [], orderCounter = Fin 1000, currentOrder = None,
      localStorage = \<lparr>items = Map.empty, readable = True, writable = False\<rparr>\<rparr>
     \<lparr>customerNameValue = js ''Ann'', phoneNumberValue = js ''+15551234567'',
      checkedHamburgerType = Some (js ''Classic Beef Burger''), quantityValue = js ''3'',
      specialInstructionsValue = js ''''\<rparr>
     (js ''2024-05-01T12:00:00.000Z'')))) counterKey = None"
proof -
  let ?f = "\<lparr>customerNameValue = js ''Ann'', phoneNumberValue = js ''+15551234567'',
      checkedHamburgerType = Some (js ''Classic Beef Burger''), quantityValue = js ''3'',
      specialInstructionsValue = js ''''\<rparr>"
  let ?a = "\<lparr>orders = [], orderCounter = Fin 1000, currentOrder = None,
      localStorage = \<lparr>items = Map.empty, readable = True, writable = False\<rparr>\<rparr>"
  let ?now = "js ''2024-05-01T12:00:00.000Z''"
  have v: "fst (validateForm ?f)"
    by (simp add: validateForm_def trim_def phone_eval)
  have i: "js_inc (Fin 1000) = Fin 1001"
    using js_inc_nat[of 1000] by (simp del: js_inc.simps)
  from handleFormSubmit_valid[OF v, of ?a ?now] obtain d where
    h: "handleFormSubmit ?a ?f ?now = (snd (generateOrderId ?a))\<lparr>currentOrder := Some d\<rparr>"
    by blast
  have c: "currentOrder (handleFormSubmit ?a ?f ?now) \<noteq> None"
    by (simp only: h) simp
  have n: "orderCounter (closeConfirmationModal (handleFormSubmit ?a ?f ?now)) = Fin 1001"
    by (simp only: h) (simp add: closeConfirmationModal_def i del: js_inc.simps)
  have p: "items (localStorage (closeConfirmationModal (handleFormSubmit ?a ?f ?now)))
             counterKey = None"
    by (simp only: h) (simp add: closeConfirmationModal_def generateOrderId_items)
  from v c n p show ?thesis
    by blast
qed

text \<open>
  C3 (amended): after a valid submit a draft is outstanding; \<open>closeConfirmationModal\<close>
  then leaves the order sequence and the persisted orders as they were before the submit
  and clears the draft, while the counter in memory keeps the increment of the build. The
  persisted counter holds the incremented value where the storage takes writes, and is
  what it was before the submit where it does not.
\<close>

theorem C3_cancel_keeps_store:
  assumes "fst (validateForm f)"
  shows "currentOrder (handleFormSubmit a f now) \<noteq> None \<and>
         orders (closeConfirmationModal (handleFormSubmit a f now)) = orders a \<and>
         items (localStorage (closeConfirmationModal (handleFormSubmit a f now))) ordersKey =
           items (localStorage a) ordersKey \<and>
         currentOrder (closeConfirmationModal (handleFormSubmit a f now)) = None \<and>
         orderCounter (closeConfirmationModal (handleFormSubmit a f now)) =
           js_inc (orderCounter a) \<and>
         localStorage (closeConfirmationModal (handleFormSubmit a f now)) =
           localStorage (handleFormSubmit a f now) \<and>
         (writable (localStorage a) \<longrightarrow>
            items (localStorage (closeConfirmationModal (handleFormSubmit a f now))) counterKey =
              Some (numberToString (js_inc (orderCounter a)))) \<and>
         (\<not> writable (localStorage a) \<longrightarrow>
            items (localStorage (closeConfirmationModal (handleFormSubmit a f now))) counterKey =
              items (localStorage a) counterKey)"
proof -
  from handleFormSubmit_valid[OF assms, of a now] obtain d where
    h: "handleFormSubmit a f now = (snd (generateOrderId a))\<lparr>currentOrder := Some d\<rparr>"
    by blast
  show ?thesis
    using keys_differ by (simp add: h closeConfirmationModal_def generateOrderId_items)
qed

text \<open>The theorem at a concrete form and a fresh application.\<close>

theorem C3_cancel_after_first_submit:
  "fst (validateForm
     \<lparr>customerNameValue = js ''Ann'', phoneNumberValue = js ''+15551234567'',
      checkedHamburgerType = Some (js ''Classic Beef Burger''), quantityValue = js ''3'',
      specialInstructionsValue = js ''''\<rparr>) \<and>
   orders (closeConfirmationModal (handleFormSubmit
     \<lparr>orders = [], orderCounter = Fin 1000, currentOrder = None,
      localStorage = \<lparr>items = Map.empty, readable = True, writable = True\<rparr>\<rparr>
     \<lparr>customerNameValue = js ''Ann'', phoneNumberValue = js ''+15551234567'',
      checkedHamburgerType = Some (js ''Classic Beef Burger''), quantityValue = js ''3'',
      specialInstructionsValue = js ''''\<rparr>
     (js ''2024-05-01T12:00:00.000Z''))) = [] \<and>
   items (localStorage (closeConfirmationModal (handleFormSubmit
     \<lparr>orders = [], orderCounter = Fin 1000, currentOrder = None,
      localStorage = \<lparr>items = Map.empty, readable = True, writable = True\<rparr>\<rparr>
     \<lparr>customerNameValue = js ''Ann'', phoneNumberValue = js ''+15551234567'',
      checkedHamburgerType = Some (js ''Classic Beef Burger''), quantityValue = js ''3'',
      specialInstructionsValue = js ''''\<rparr>
     (js ''2024-05-01T12:00:00.000Z'')))) counterKey = Some (decimal 1001)"
proof -
  let ?f = "\<lparr>customerNameValue = js ''Ann'', phoneNumberValue = js ''+15551234567'',
      checkedHamburgerType = Some (js ''Classic Beef Burger''), quantityValue = js ''3'',
      specialInstructionsValue = js ''''\<rparr>"
  let ?a = "\<lparr>orders = [], orderCounter = Fin 1000, currentOrder = None,
      localStorage = \<lparr>items = Map.empty, readable = True, writable = True\<rparr>\<rparr>"
  have v: "fst (validateForm ?f)"
    by (simp add: validateForm_def trim_def phone_eval)
  have i: "js_inc (Fin 1000) = Fin 1001"
    using js_inc_nat[of 1000] by (simp del: js_inc.simps)
  have n: "numberToString (Fin 1001) = decimal 1001"
    using numberToString_nat[of 1001] by (simp del: numberToString.simps)
  let ?s = "closeConfirmationModal (handleFormSubmit ?a ?f (js ''2024-05-01T12:00:00.000Z''))"
  note t = C3_cancel_keeps_store[OF v, of ?a "js ''2024-05-01T12:00:00.000Z''"]
  from t have o: "orders ?s = orders ?a"
    by blast
  from t have "writable (localStorage ?a) \<longrightarrow>
      items (localStorage ?s) counterKey = Some (numberToString (js_inc (orderCounter ?a)))"
    by blast
  then have c: "items (localStorage ?s) counterKey = Some (decimal 1001)"
    by (simp add: i n del: js_inc.simps numberToString.simps)
  from v o c show ?thesis
    by simp
qed

subsection \<open>Confirming twice\<close>

text \<open>
  C4: with a draft outstanding, the first \<open>confirmOrder\<close> prepends the draft and clears
  \<open>currentOrder\<close>; the second changes nothing, neither the order sequence nor the
  storage.
\<close>

theorem C4_second_confirm_is_noop:
  assumes "currentOrder a = Some d"
  shows "orders (confirmOrder a) = d # orders a \<and>
         currentOrder (confirmOrder a) = None \<and>
         confirmOrder (confirmOrder a) = confirmOrder a \<and>
         orders (confirmOrder (confirmOrder a)) = d # orders a \<and>
         localStorage (confirmOrder (confirmOrder a)) = localStorage (confirmOrder a)"
proof -
  have n: "currentOrder (confirmOrder a) = None"
    using confirmOrder_draft(2)[OF assms] .
  have i: "confirmOrder (confirmOrder a) = confirmOrder a"
    using confirmOrder_idle[OF n] .
  show ?thesis
    using confirmOrder_draft(1)[OF assms] n i by simp
qed
text \<open>The theorem at a concrete draft.\<close>

theorem C4_confirm_twice_example:
  "orders (confirmOrder (confirmOrder
     \<lparr>orders = [], orderCounter = Fin 1001,
      currentOrder = Some \<lparr>customerName = js ''Ann'', phoneNumber = js ''+15551234567'',
        hamburgerType = js ''Classic Beef Burger'', quantity = Fin 3,
        specialInstructions = js ''None'', unitPrice = Number (literal (1299 / 100)),
        totalPrice = literal (3897 / 100), status = js ''Pending'',
        orderDate = js ''2024-05-01T12:00:00.000Z'', orderId = js ''BC1001''\<rparr>,
      localStorage = \<lparr>items = Map.empty, readable = True, writable = True\<rparr>\<rparr>)) =
   [\<lparr>customerName = js ''Ann'', phoneNumber = js ''+15551234567'',
     hamburgerType = js ''Classic Beef Burger'', quantity = Fin 3,
     specialInstructions = js ''None'', unitPrice = Number (literal (1299 / 100)),
     totalPrice = literal (3897 / 100), status = js ''Pending'',
     orderDate = js ''2024-05-01T12:00:00.000Z'', orderId = js ''BC1001''\<rparr>]"
  using C4_second_confirm_is_noop[of
     "\<lparr>orders = [], orderCounter = Fin 1001,
      currentOrder = Some \<lparr>customerName = js ''Ann'', phoneNumber = js ''+15551234567'',
        hamburgerType = js ''Classic Beef Burger'', quantity = Fin 3,
        specialInstructions = js ''None'', unitPrice = Number (literal (1299 / 100)),
        totalPrice = literal (3897 / 100), status = js ''Pending'',
        orderDate = js ''2024-05-01T12:00:00.000Z'', orderId = js ''BC1001''\<rparr>,
      localStorage = \<lparr>items = Map.empty, readable = True, writable = True\<rparr>\<rparr>"]
  by simp

subsection \<open>Orders stay pending\<close>

lemma built_order_pending:
  "collectFormData a f now = Inr (d, a') \<Longrightarrow> status d = js ''Pending''"
  by (auto simp: collectFormData_def Let_def split_beta split: option.splits)

lemma handle_pending:
  assumes "draftPending a"
  shows "draftPending (handle a e) \<and>
         (\<exists>new. orders (handle a e) = new @ orders a \<and>
                list_all (\<lambda>d. status d = js ''Pending'') new)"
proof (cases e)
  case (Submit f now)
  show ?thesis
  proof (cases "fst (validateForm f)")
    case True
    from handleFormSubmit_valid[OF True, of a now] obtain d where
      "handleFormSubmit a f now = (snd (generateOrderId a))\<lparr>currentOrder := Some d\<rparr>"
      "status d = js ''Pending''"
      by blast
    then show ?thesis
      by (simp add: Submit draftPending_def)
  next
    case False
    then show ?thesis
      using assms by (simp add: Submit handleFormSubmit_invalid)
  qed
next
  case Confirm
  show ?thesis
  proof (cases "currentOrder a")
    case None
    then show ?thesis
      using assms by (simp add: Confirm confirmOrder_idle)
  next
    case (Some d)
    with assms have "status d = js ''Pending''"
      by (simp add: draftPending_def)
    then show ?thesis
      using confirmOrder_draft(1,2)[OF Some] by (simp add: Confirm draftPending_def)
  qed
next
  case Cancel
  then show ?thesis
    by (simp add: closeConfirmationModal_def draftPending_def)
next
  case CloseSuccess
  then show ?thesis
    using assms by (simp add: closeSuccessModal_def)
qed

lemma builtBy_pending: "list_all (\<lambda>d. status d = js ''Pending'') (builtBy a x)"
  by (auto simp: builtBy_def built_order_pending split: action.splits event.splits sum.splits)

lemma built_pending: "list_all (\<lambda>d. status d = js ''Pending'') (built a xs)"
  by (induction xs arbitrary: a) (auto simp: builtBy_pending split: option.splits)

text \<open>
  C10: every order ever built has status \<open>"Pending"\<close>; and along any sequence of user
  events, starting with no draft or a pending one, the order sequence only grows at its
  front, by orders of status \<open>"Pending"\<close>, the orders already in it staying as they are.
  So no handler assigns another status, \<open>"Confirmed"\<close> included, or changes an order
  that was appended.
\<close>

theorem C10_orders_stay_pending:
  assumes "draftPending a"
  shows "list_all (\<lambda>d. status d = js ''Pending'') (built a xs) \<and>
         draftPending (foldl handle a es) \<and>
         (\<exists>new. orders (foldl handle a es) = new @ orders a \<and>
                list_all (\<lambda>d. status d = js ''Pending'') new)"
proof -
  have "draftPending (foldl handle a es) \<and>
         (\<exists>new. orders (foldl handle a es) = new @ orders a \<and>
                list_all (\<lambda>d. status d = js ''Pending'') new)"
    using assms
  proof (induction es arbitrary: a)
    case Nil
    then show ?case by simp
  next
    case (Cons e es)
    from handle_pending[OF Cons.prems, of e] obtain new1 where
      h: "draftPending (handle a e)" "orders (handle a e) = new1 @ orders a"
         "list_all (\<lambda>d. status d = js ''Pending'') new1"
      by blast
    from Cons.IH[OF h(1)] obtain new2 where
      i: "draftPending (foldl handle (handle a e) es)"
         "orders (foldl handle (handle a e) es) = new2 @ orders (handle a e)"
         "list_all (\<lambda>d. status d = js ''Pending'') new2"
      by blast
    have "orders (foldl handle a (e # es)) = (new2 @ new1) @ orders a"
      using i(2) h(2) by simp
    moreover have "list_all (\<lambda>d. status d = js ''Pending'') (new2 @ new1)"
      using i(3) h(3) by simp
    ultimately show ?case
      using i(1) by (metis foldl_Cons)
  qed
  then show ?thesis
    using built_pending[of a xs] by blast
qed

text \<open>The theorem at a fresh application, for a submit followed by a confirm.\<close>

theorem C10_first_order_pending:
  "draftPending
     \<lparr>orders = [], orderCounter = Fin 1000, currentOrder = None,
      localStorage = \<lparr>items = Map.empty, readable = True, writable = True\<rparr>\<rparr> \<and>
   (\<exists>new. orders (foldl handle
       \<lparr>orders = [], orderCounter = Fin 1000, currentOrder = None,
        localStorage = \<lparr>items = Map.empty, readable = True, writable = True\<rparr>\<rparr>
       [Submit \<lparr>customerNameValue = js ''Ann'', phoneNumberValue = js ''+15551234567'',
          checkedHamburgerType = Some (js ''Classic Beef Burger''), quantityValue = js ''3'',
          specialInstructionsValue = js ''''\<rparr> (js ''2024-05-01T12:00:00.000Z''),
        Confirm]) = new \<and>
     list_all (\<lambda>d. status d = js ''Pending'') new)"
proof -
  let ?a = "\<lparr>orders = [], orderCounter = Fin 1000, currentOrder = None,
      localStorage = \<lparr>items = Map.empty, readable = True, writable = True\<rparr>\<rparr>"
  have p: "draftPending ?a"
    by (simp add: draftPending_def)
  from C10_orders_stay_pending[OF p] p show ?thesis
    by (simp del: foldl_Cons)
qed

subsection \<open>Order ids\<close>












end
